theory Spec2Isabelle
  imports Complex_Main
begin

section \<open>Numbers of the program\<close>

text \<open>
  The program (\<^verbatim>\<open>HuggingFace_Space_Files/app.py\<close>) computes with float64 values of
  numpy and pandas. A value is modelled as \<open>fval\<close>: a finite value, carried as an exact
  real number, or one of the three special values that IEEE arithmetic produces where
  no finite result exists. So the model keeps what decides the program's control flow
  (numpy's division by zero returns an infinity or NaN and raises nothing; every
  comparison with NaN is false) and leaves out rounding of finite results, overflow of
  finite results and the sign of zero. An int64 value of pandas is carried as an
  integer, without the wrap-around at 64 bits, which no statement below depends on.
\<close>

datatype fval = Fin real | PInf | NInf | NaN

fun fneg :: "fval \<Rightarrow> fval" where
  "fneg (Fin a) = Fin (- a)"
| "fneg PInf = NInf"
| "fneg NInf = PInf"
| "fneg NaN = NaN"

fun fadd :: "fval \<Rightarrow> fval \<Rightarrow> fval" where
  "fadd (Fin a) (Fin b) = Fin (a + b)"
| "fadd (Fin a) PInf = PInf"
| "fadd (Fin a) NInf = NInf"
| "fadd PInf (Fin b) = PInf"
| "fadd PInf PInf = PInf"
| "fadd PInf NInf = NaN"
| "fadd NInf (Fin b) = NInf"
| "fadd NInf NInf = NInf"
| "fadd NInf PInf = NaN"
| "fadd NaN y = NaN"
| "fadd x NaN = NaN"

definition fsub :: "fval \<Rightarrow> fval \<Rightarrow> fval" where
  "fsub x y = fadd x (fneg y)"

text \<open>The sign of an infinity times or over a finite value; a zero counts as \<open>+0\<close>.\<close>

fun fmul :: "fval \<Rightarrow> fval \<Rightarrow> fval" where
  "fmul (Fin a) (Fin b) = Fin (a * b)"
| "fmul (Fin a) PInf = (if a = 0 then NaN else if 0 < a then PInf else NInf)"
| "fmul (Fin a) NInf = (if a = 0 then NaN else if 0 < a then NInf else PInf)"
| "fmul PInf (Fin b) = (if b = 0 then NaN else if 0 < b then PInf else NInf)"
| "fmul NInf (Fin b) = (if b = 0 then NaN else if 0 < b then NInf else PInf)"
| "fmul PInf PInf = PInf"
| "fmul PInf NInf = NInf"
| "fmul NInf PInf = NInf"
| "fmul NInf NInf = PInf"
| "fmul NaN y = NaN"
| "fmul x NaN = NaN"

text \<open>
  numpy's true division. Dividing by zero is not an error: a non-zero finite value over
  zero is an infinity, zero over zero is NaN (numpy prints a RuntimeWarning and goes on).
\<close>

fun fdiv :: "fval \<Rightarrow> fval \<Rightarrow> fval" where
  "fdiv (Fin a) (Fin b) =
     (if b = 0 then (if a = 0 then NaN else if 0 < a then PInf else NInf)
      else Fin (a / b))"
| "fdiv (Fin a) PInf = Fin 0"
| "fdiv (Fin a) NInf = Fin 0"
| "fdiv PInf (Fin b) = (if 0 \<le> b then PInf else NInf)"
| "fdiv NInf (Fin b) = (if 0 \<le> b then NInf else PInf)"
| "fdiv PInf PInf = NaN"
| "fdiv PInf NInf = NaN"
| "fdiv NInf PInf = NaN"
| "fdiv NInf NInf = NaN"
| "fdiv NaN y = NaN"
| "fdiv x NaN = NaN"

fun fabs :: "fval \<Rightarrow> fval" where
  "fabs (Fin a) = Fin \<bar>a\<bar>"
| "fabs PInf = PInf"
| "fabs NInf = PInf"
| "fabs NaN = NaN"

text \<open>\<^verbatim>\<open>np.sqrt\<close>: NaN on a negative argument.\<close>

fun fsqrt :: "fval \<Rightarrow> fval" where
  "fsqrt (Fin a) = (if a < 0 then NaN else Fin (sqrt a))"
| "fsqrt PInf = PInf"
| "fsqrt NInf = NaN"
| "fsqrt NaN = NaN"

text \<open>The comparison \<^verbatim>\<open>x < y\<close>; false as soon as one side is NaN.\<close>

fun flt :: "fval \<Rightarrow> fval \<Rightarrow> bool" where
  "flt (Fin a) (Fin b) = (a < b)"
| "flt (Fin a) PInf = True"
| "flt (Fin a) NInf = False"
| "flt PInf y = False"
| "flt NInf (Fin b) = True"
| "flt NInf PInf = True"
| "flt NInf NInf = False"
| "flt NInf NaN = False"
| "flt (Fin a) NaN = False"
| "flt NaN y = False"

text \<open>The comparison \<^verbatim>\<open>x <= y\<close>.\<close>

fun fle :: "fval \<Rightarrow> fval \<Rightarrow> bool" where
  "fle (Fin a) (Fin b) = (a \<le> b)"
| "fle (Fin a) PInf = True"
| "fle (Fin a) NInf = False"
| "fle PInf PInf = True"
| "fle PInf (Fin b) = False"
| "fle PInf NInf = False"
| "fle NInf (Fin b) = True"
| "fle NInf PInf = True"
| "fle NInf NInf = True"
| "fle NInf NaN = False"
| "fle PInf NaN = False"
| "fle (Fin a) NaN = False"
| "fle NaN y = False"

text \<open>
  Python's built-in \<^verbatim>\<open>min(a, b)\<close> keeps \<open>a\<close> unless \<^verbatim>\<open>b < a\<close>, and \<^verbatim>\<open>max(a, b)\<close>
  keeps \<open>a\<close> unless \<^verbatim>\<open>b > a\<close>. With a NaN on either side the first argument is
  returned.
\<close>

definition py_min :: "fval \<Rightarrow> fval \<Rightarrow> fval" where
  "py_min a b = (if flt b a then b else a)"

definition py_max :: "fval \<Rightarrow> fval \<Rightarrow> fval" where
  "py_max a b = (if flt a b then b else a)"

section \<open>Exceptions\<close>

text \<open>
  The exceptions the pipeline can meet, each with the text that \<^verbatim>\<open>str(e)\<close> gives.
  \<open>ParserError\<close> stands for whatever \<^verbatim>\<open>pd.read_csv\<close> raises, with its description.
  \<^verbatim>\<open>str\<close> of a \<^verbatim>\<open>KeyError\<close> is the \<^verbatim>\<open>repr\<close> of the missing key, the key between
  single quotes; \<^verbatim>\<open>str\<close> of a \<^verbatim>\<open>TypeError\<close> is its message.
\<close>

datatype exn =
    KeyError string
  | TypeError string
  | ValueError string
  | OverflowError string
  | ParserError string

fun str_exn :: "exn \<Rightarrow> string" where
  "str_exn (KeyError k) = [CHR 0x27] @ k @ [CHR 0x27]"
| "str_exn (TypeError m) = m"
| "str_exn (ValueError m) = m"
| "str_exn (OverflowError m) = m"
| "str_exn (ParserError m) = m"

text \<open>
  \<^verbatim>\<open>int(x)\<close> truncates a finite float toward zero and raises on NaN and on an infinity.
\<close>

fun py_int :: "fval \<Rightarrow> exn + int" where
  "py_int (Fin a) = Inr (if 0 \<le> a then \<lfloor>a\<rfloor> else \<lceil>a\<rceil>)"
| "py_int NaN = Inl (ValueError ''cannot convert float NaN to integer'')"
| "py_int PInf = Inl (OverflowError ''cannot convert float infinity to integer'')"
| "py_int NInf = Inl (OverflowError ''cannot convert float infinity to integer'')"

text \<open>
  \<^verbatim>\<open>round(x, 2)\<close>: to two decimals, a tie going to the even neighbour; NaN and the
  infinities are returned as they are.
\<close>

definition round_half_even :: "real \<Rightarrow> int" where
  "round_half_even r =
     (let f = \<lfloor>r\<rfloor>; d = r - of_int f
      in if d < 1 / 2 then f else if 1 / 2 < d then f + 1
         else if even f then f else f + 1)"

fun py_round2 :: "fval \<Rightarrow> fval" where
  "py_round2 (Fin a) = Fin (of_int (round_half_even (a * 100)) / 100)"
| "py_round2 PInf = PInf"
| "py_round2 NInf = NInf"
| "py_round2 NaN = NaN"

section \<open>The score calculator\<close>

text \<open>
  \<^verbatim>\<open>calculate_attention_score(duration, avg_movement, stability, coverage, points)\<close>,
  lines 72 to 100. Its four local sub-scores are definitions of their own, named after
  the local variables; \<open>coverage\<close> is a parameter that the body never reads.
\<close>

definition duration_score :: "fval \<Rightarrow> fval" where
  "duration_score duration =
     (if fle (Fin 10) duration \<and> fle duration (Fin 30) then Fin 25
      else if flt (Fin 30) duration
        then fsub (Fin 25) (py_min (fmul (fsub duration (Fin 30)) (Fin (1 / 2))) (Fin 15))
      else fmul duration (Fin (5 / 2)))"

definition stability_score :: "fval \<Rightarrow> fval" where
  "stability_score stability = py_min (fmul stability (Fin (3 / 10))) (Fin 20)"

definition quality_score :: "nat \<Rightarrow> fval" where
  "quality_score points = fmul (py_min (Fin (real points / 100)) (Fin 1)) (Fin 15)"

definition movement_score :: "fval \<Rightarrow> fval" where
  "movement_score avg_movement =
     (if fle (Fin 50) avg_movement \<and> fle avg_movement (Fin 200) then Fin 10
      else py_max (fsub (Fin 10) (fmul (fabs (fsub avg_movement (Fin 125))) (Fin (1 / 20))))
                  (Fin 0))"

definition total_score :: "fval \<Rightarrow> fval \<Rightarrow> fval \<Rightarrow> nat \<Rightarrow> fval" where
  "total_score duration avg_movement stability points =
     fadd (fadd (fadd (fadd (Fin 50) (duration_score duration)) (stability_score stability))
                (quality_score points))
          (movement_score avg_movement)"

definition calculate_attention_score ::
  "fval \<Rightarrow> fval \<Rightarrow> fval \<Rightarrow> fval \<Rightarrow> nat \<Rightarrow> fval" where
  "calculate_attention_score duration avg_movement stability coverage points =
     py_max (Fin 1) (py_min (Fin 100) (total_score duration avg_movement stability points))"

section \<open>The label\<close>

text \<open>\<^verbatim>\<open>get_score_description(score)\<close>, lines 102 to 115; \<^verbatim>\<open>score >= 85\<close> is \<open>85 \<le> score\<close>.\<close>

definition get_score_description :: "fval \<Rightarrow> string" where
  "get_score_description score =
     (if fle (Fin 85) score then ''Excellent attention patterns''
      else if fle (Fin 70) score then ''Good attention stability''
      else if fle (Fin 55) score then ''Moderate attention focus''
      else if fle (Fin 40) score then ''Needs attention improvement''
      else ''Poor attention patterns'')"

section \<open>Auxiliary predicates\<close>

text \<open>A value is finite; a value is not below zero (NaN counts: it is not negative).\<close>

fun is_fin :: "fval \<Rightarrow> bool" where
  "is_fin (Fin a) = True"
| "is_fin v = False"

fun not_negative :: "fval \<Rightarrow> bool" where
  "not_negative (Fin a) = (0 \<le> a)"
| "not_negative PInf = True"
| "not_negative NInf = False"
| "not_negative NaN = True"

section \<open>The parsed table\<close>

text \<open>
  \<^verbatim>\<open>pd.read_csv\<close> is the library's: the pipeline takes it as the parameter
  \<open>read_csv\<close>, which returns the table or the exception it raised. A table is its
  number of rows and its columns by name, in header order. pandas gives every column
  one dtype: \<open>int64\<close> when every cell is an integer literal, \<open>float64\<close> when every cell
  is a number and some cell is a decimal literal or is missing (a missing cell is NaN),
  \<open>object\<close> when the cells are text. A column gives the cell of every row index; only
  the indices below \<open>nrows\<close> are read. Columns of other dtypes (\<open>bool\<close>) and text
  columns with missing cells are not modelled. The columns of a table without rows are
  of dtype \<open>object\<close>.
\<close>

datatype column =
    Int64 "nat \<Rightarrow> int"
  | Float64 "nat \<Rightarrow> fval"
  | Object "nat \<Rightarrow> string"

record dataframe =
  nrows :: nat
  columns :: "(string \<times> column) list"

text \<open>The dtype of a column.\<close>

fun is_float64 :: "column \<Rightarrow> bool" where
  "is_float64 (Float64 f) = True"
| "is_float64 c = False"

fun is_text :: "column \<Rightarrow> bool" where
  "is_text (Object f) = True"
| "is_text c = False"

text \<open>
  \<^verbatim>\<open>df[c]\<close>, and the lookup of \<open>c\<close> in a row \<^verbatim>\<open>df.iloc[i]\<close>: a name that the header
  lacks raises \<^verbatim>\<open>KeyError(c)\<close>.
\<close>

definition df_getitem :: "dataframe \<Rightarrow> string \<Rightarrow> exn + column" where
  "df_getitem df c =
     (case map_of (columns df) c of None \<Rightarrow> Inl (KeyError c) | Some col \<Rightarrow> Inr col)"

text \<open>
  A numpy scalar that the statistics keep: \<^verbatim>\<open>numpy.int64\<close> or \<^verbatim>\<open>numpy.float64\<close>.
  The product of two int64 is an int64; a product with a float64 is a float64.
\<close>

datatype num = NpInt int | NpFloat fval

fun to_float :: "num \<Rightarrow> fval" where
  "to_float (NpInt k) = Fin (of_int k)"
| "to_float (NpFloat v) = v"

fun num_mul :: "num \<Rightarrow> num \<Rightarrow> num" where
  "num_mul (NpInt a) (NpInt b) = NpInt (a * b)"
| "num_mul a b = NpFloat (fmul (to_float a) (to_float b))"

fun is_np_float :: "num \<Rightarrow> bool" where
  "is_np_float (NpFloat v) = True"
| "is_np_float (NpInt k) = False"

text \<open>Python's message for the difference of two strings.\<close>

definition str_minus_str :: string where
  "str_minus_str =
     ''unsupported operand type(s) for -: '' @ [CHR 0x27] @ ''str'' @ [CHR 0x27]
       @ '' and '' @ [CHR 0x27] @ ''str'' @ [CHR 0x27]"

fun is_nan :: "fval \<Rightarrow> bool" where
  "is_nan NaN = True"
| "is_nan v = False"

text \<open>
  \<^verbatim>\<open>Series.max()\<close> and \<^verbatim>\<open>Series.min()\<close> of a float64 column skip NaN cells and give
  NaN when nothing is left.
\<close>

definition series_max :: "fval list \<Rightarrow> fval" where
  "series_max vs =
     (case filter (\<lambda>v. \<not> is_nan v) vs of
        [] \<Rightarrow> NaN
      | w # ws \<Rightarrow> foldl (\<lambda>m v. if flt m v then v else m) w ws)"

definition series_min :: "fval list \<Rightarrow> fval" where
  "series_min vs =
     (case filter (\<lambda>v. \<not> is_nan v) vs of
        [] \<Rightarrow> NaN
      | w # ws \<Rightarrow> foldl (\<lambda>m v. if flt v m then v else m) w ws)"

text \<open>
  \<^verbatim>\<open>s.max() - s.min()\<close> of a column \<open>s\<close> with \<open>n\<close> rows, lines 17, 31 and 32. Of an
  int64 column it is an int64. Of a column without rows both extrema are NaN. Of a text
  column with rows the extrema are strings, and their difference raises
  \<^verbatim>\<open>TypeError\<close>.
\<close>

fun series_range :: "nat \<Rightarrow> column \<Rightarrow> exn + num" where
  "series_range n (Float64 f) =
     Inr (NpFloat (fsub (series_max (map f [0..<n])) (series_min (map f [0..<n]))))"
| "series_range n (Int64 f) =
     (if n = 0 then Inr (NpFloat NaN)
      else Inr (NpInt (Max (set (map f [0..<n])) - Min (set (map f [0..<n])))))"
| "series_range n (Object f) =
     (if n = 0 then Inr (NpFloat NaN) else Inl (TypeError str_minus_str))"

text \<open>
  \<^verbatim>\<open>df.iloc[i][c] - df.iloc[i-1][c]\<close>, lines 22 and 23: the two lookups, then the
  difference, as the float that enters the square. Whether pandas hands the two cells
  over as int64 or as float64 does not change the value.
\<close>

definition item_diff :: "dataframe \<Rightarrow> nat \<Rightarrow> string \<Rightarrow> exn + fval" where
  "item_diff df i c =
     (case df_getitem df c of
        Inl e \<Rightarrow> Inl e
      | Inr (Int64 f) \<Rightarrow> Inr (Fin (of_int (f i - f (i - 1))))
      | Inr (Float64 f) \<Rightarrow> Inr (fsub (f i) (f (i - 1)))
      | Inr (Object f) \<Rightarrow> Inl (TypeError str_minus_str))"

text \<open>
  \<^verbatim>\<open>df[c].values\<close> as the floats that line 38 divides by, after \<^verbatim>\<open>np.diff\<close>. A text
  column has no such values; the pipeline asks for them at line 37 only, which a text
  column with rows does not reach (line 17 has raised), and without rows the array is
  empty.
\<close>

fun column_floats :: "nat \<Rightarrow> column \<Rightarrow> fval list" where
  "column_floats n (Int64 f) = map (\<lambda>i. Fin (of_int (f i))) [0..<n]"
| "column_floats n (Float64 f) = map f [0..<n]"
| "column_floats n (Object f) = []"

text \<open>
  \<^verbatim>\<open>np.sum\<close>, \<^verbatim>\<open>np.mean\<close> (the sum over the count), \<^verbatim>\<open>np.diff\<close> (each element minus
  the one before it) and \<^verbatim>\<open>np.std\<close> (the population standard deviation: the root of
  the mean of the squared deviations from the mean).
\<close>

definition np_sum :: "fval list \<Rightarrow> fval" where
  "np_sum vs = foldl fadd (Fin 0) vs"

definition np_mean :: "fval list \<Rightarrow> fval" where
  "np_mean vs = fdiv (np_sum vs) (Fin (real (length vs)))"

fun np_diff :: "fval list \<Rightarrow> fval list" where
  "np_diff (a # b # vs) = fsub b a # np_diff (b # vs)"
| "np_diff vs = []"

definition np_std :: "fval list \<Rightarrow> fval" where
  "np_std vs =
     (let arrmean = np_mean vs;
          x = map (\<lambda>v. fsub v arrmean) vs
      in fsqrt (np_mean (map (\<lambda>d. fmul d d) x)))"

section \<open>The statistics of a table\<close>

text \<open>
  Lines 20 to 25 of \<^verbatim>\<open>analyze_gaze_data\<close>: the loop over \<^verbatim>\<open>range(1, len(df))\<close>, here
  the list of its indices, appends the distance between rows \<open>i - 1\<close> and \<open>i\<close>. \<open>dx\<close> is
  computed before \<open>dy\<close>, so a table that lacks both columns raises \<^verbatim>\<open>KeyError('x')\<close>.
\<close>

fun distances_loop :: "dataframe \<Rightarrow> nat list \<Rightarrow> exn + fval list" where
  "distances_loop df [] = Inr []"
| "distances_loop df (i # is) =
     (case item_diff df i ''x'' of Inl e \<Rightarrow> Inl e | Inr dx \<Rightarrow>
      case item_diff df i ''y'' of Inl e \<Rightarrow> Inl e | Inr dy \<Rightarrow>
      case distances_loop df is of Inl e \<Rightarrow> Inl e | Inr distances \<Rightarrow>
        Inr (fsqrt (fadd (fmul dx dx) (fmul dy dy)) # distances))"

text \<open>Lines 36 to 41: the stability, from the distances and the elapsed-time column.\<close>

definition compute_stability :: "fval list \<Rightarrow> fval list \<Rightarrow> fval" where
  "compute_stability distances ts =
     (if 1 < length distances
      then (let time_diffs = np_diff ts;
                speeds = map2 fdiv distances time_diffs
            in fsub (Fin 100) (py_min (fmul (np_std speeds) (Fin 10)) (Fin 100)))
      else Fin 50)"

record stats =
  total_points :: nat
  duration :: num
  avg_distance :: fval
  total_distance :: fval
  coverage_area :: num
  stability :: fval

text \<open>
  Lines 16 to 41, in the order the source evaluates them: the first statement that
  raises decides the exception.
\<close>

definition statistics :: "dataframe \<Rightarrow> exn + stats" where
  "statistics df =
     (case df_getitem df ''elapsedTime(seconds)'' of Inl e \<Rightarrow> Inl e | Inr ts \<Rightarrow>
      case series_range (nrows df) ts of Inl e \<Rightarrow> Inl e | Inr elapsed \<Rightarrow>
      case distances_loop df [1..<nrows df] of Inl e \<Rightarrow> Inl e | Inr distances \<Rightarrow>
      case df_getitem df ''x'' of Inl e \<Rightarrow> Inl e | Inr xs \<Rightarrow>
      case series_range (nrows df) xs of Inl e \<Rightarrow> Inl e | Inr x_range \<Rightarrow>
      case df_getitem df ''y'' of Inl e \<Rightarrow> Inl e | Inr ys \<Rightarrow>
      case series_range (nrows df) ys of Inl e \<Rightarrow> Inl e | Inr y_range \<Rightarrow>
        Inr \<lparr> total_points = nrows df,
              duration = elapsed,
              avg_distance = (if distances \<noteq> [] then np_mean distances else Fin 0),
              total_distance = (if distances \<noteq> [] then np_sum distances else Fin 0),
              coverage_area = num_mul x_range y_range,
              stability = compute_stability distances (column_floats (nrows df) ts) \<rparr>)"

section \<open>The pipeline\<close>

text \<open>
  The two dictionaries that \<^verbatim>\<open>analyze_gaze_data\<close> builds, as JSON values with the keys
  in the order of the source. \<open>JInt\<close> is a Python integer, \<open>JNpInt\<close> a
  \<^verbatim>\<open>numpy.int64\<close>, \<open>JFloat\<close> a float.
\<close>

datatype json =
    JInt int
  | JNpInt int
  | JFloat fval
  | JString string
  | JObject "(string \<times> json) list"

text \<open>\<^verbatim>\<open>round(x, 2)\<close> of a numpy scalar keeps its type: an int64 stays an int64.\<close>

fun round2_json :: "num \<Rightarrow> json" where
  "round2_json (NpInt k) = JNpInt k"
| "round2_json (NpFloat v) = JFloat (py_round2 v)"

text \<open>Lines 49 to 60.\<close>

definition result_dict :: "stats \<Rightarrow> fval \<Rightarrow> int \<Rightarrow> json" where
  "result_dict st attention_score score =
     JObject
       [(''score'', JInt score),
        (''analysis'', JObject
           [(''total_points'', JInt (int (total_points st))),
            (''duration_seconds'', round2_json (duration st)),
            (''average_movement'', JFloat (py_round2 (avg_distance st))),
            (''total_movement'', JFloat (py_round2 (total_distance st))),
            (''stability_score'', JFloat (py_round2 (stability st))),
            (''coverage_area'', round2_json (coverage_area st))]),
        (''message'',
           JString (''Analysis completed: '' @ get_score_description attention_score))]"

text \<open>Lines 65 to 69.\<close>

definition error_result :: "exn \<Rightarrow> json" where
  "error_result e =
     JObject
       [(''score'', JInt 0),
        (''error'', JString (str_exn e)),
        (''message'', JString ''Analysis failed'')]"

text \<open>
  \<^verbatim>\<open>json.dumps(obj, indent=2)\<close>. The encoder accepts Python integers, floats (NaN and
  the infinities too, written as the tokens \<^verbatim>\<open>NaN\<close>, \<^verbatim>\<open>Infinity\<close> and
  \<^verbatim>\<open>-Infinity\<close>), strings and dictionaries of them; on a \<^verbatim>\<open>numpy.int64\<close> it raises
  \<^verbatim>\<open>TypeError\<close>. The layout of the text is the parameter \<open>render\<close>.
\<close>

fun serializable :: "json \<Rightarrow> bool" where
  "serializable (JInt k) = True"
| "serializable (JNpInt k) = False"
| "serializable (JFloat v) = True"
| "serializable (JString s) = True"
| "serializable (JObject members) = list_all (\<lambda>(key, v). serializable v) members"


text \<open>
  Lines 12 to 60 of the body of the \<^verbatim>\<open>try\<close>: every statement that can raise is a case
  distinction, and the exception ends the body. The calculator receives the duration
  and the coverage with their values, int64 or float64.
\<close>

definition build_result :: "(string \<Rightarrow> exn + dataframe) \<Rightarrow> string \<Rightarrow> exn + json" where
  "build_result read_csv csv_data =
     (case read_csv csv_data of Inl e \<Rightarrow> Inl e | Inr df \<Rightarrow>
      case statistics df of Inl e \<Rightarrow> Inl e | Inr st \<Rightarrow>
        (let attention_score =
               calculate_attention_score (to_float (duration st)) (avg_distance st)
                 (stability st) (to_float (coverage_area st)) (total_points st)
         in case py_int attention_score of Inl e \<Rightarrow> Inl e | Inr score \<Rightarrow>
              Inr (result_dict st attention_score score)))"



text \<open>
  The dictionary whose text \<^verbatim>\<open>analyze_gaze_data\<close> returns: the result, when line 62
  serialises it, and else the error dictionary of the exception. That
  \<open>analyze_gaze_data\<close> returns the text of this dictionary, and raises nothing, is the
  lemma \<open>analyze_gaze_data_response\<close> below.
\<close>

definition response :: "(string \<Rightarrow> exn + dataframe) \<Rightarrow> string \<Rightarrow> json" where
  "response read_csv csv_data =
     (case build_result read_csv csv_data of
        Inl e \<Rightarrow> error_result e
      | Inr result \<Rightarrow>
          if serializable result then result
          else error_result (TypeError ''Object of type int64 is not JSON serializable''))"

text \<open>
  A dictionary whose text is JSON by the standard (RFC 8259), which has no token for
  NaN or for an infinity.
\<close>

fun strict_json :: "json \<Rightarrow> bool" where
  "strict_json (JInt k) = True"
| "strict_json (JNpInt k) = False"
| "strict_json (JFloat v) = is_fin v"
| "strict_json (JString s) = True"
| "strict_json (JObject members) = list_all (\<lambda>(key, v). strict_json v) members"

section \<open>The label table of the specification\<close>

text \<open>
  The table of section 4.4 of the specification, row by row: the range of integer
  scores of a row, and its label. It is written from the specification, to be compared
  with \<open>get_score_description\<close>, which is written from the source.
\<close>

definition label_table_spec :: "((int \<Rightarrow> bool) \<times> string) list" where
  "label_table_spec =
     [(\<lambda>s. 85 \<le> s, ''Excellent attention patterns''),
      (\<lambda>s. 70 \<le> s \<and> s \<le> 84, ''Good attention stability''),
      (\<lambda>s. 55 \<le> s \<and> s \<le> 69, ''Moderate attention focus''),
      (\<lambda>s. 40 \<le> s \<and> s \<le> 54, ''Needs attention improvement''),
      (\<lambda>s. s < 40, ''Poor attention patterns'')]"

section \<open>Example inputs\<close>

text \<open>
  Four request texts and the tables pandas reads from them: one sample written with
  decimal points, so three float64 columns; one sample written as integers, so three
  int64 columns; one sample of a table without the column \<open>y\<close>; three samples of which
  the first two have the same elapsed time. \<open>sample_read_csv\<close> is an instance of the
  parameter \<open>read_csv\<close> that reads these four texts and raises on every other text
  what \<^verbatim>\<open>pd.read_csv\<close> raises on the empty text. \<open>sample_render\<close> is an instance of
  the parameter \<open>render\<close>.
\<close>

definition float_column :: "real list \<Rightarrow> column" where
  "float_column vs = Float64 (\<lambda>i. Fin (vs ! i))"

definition int_column :: "int list \<Rightarrow> column" where
  "int_column ks = Int64 (\<lambda>i. ks ! i)"

definition single_row_csv :: string where
  "single_row_csv = ''elapsedTime(seconds),x,y'' @ [CHR 0x0A] @ ''0.5,100.5,200.3''"

definition single_row_frame :: dataframe where
  "single_row_frame =
     \<lparr> nrows = 1,
       columns = [(''elapsedTime(seconds)'', float_column [1 / 2]),
                  (''x'', float_column [201 / 2]),
                  (''y'', float_column [2003 / 10])] \<rparr>"

definition int_row_csv :: string where
  "int_row_csv = ''elapsedTime(seconds),x,y'' @ [CHR 0x0A] @ ''1,2,3''"

definition int_row_frame :: dataframe where
  "int_row_frame =
     \<lparr> nrows = 1,
       columns = [(''elapsedTime(seconds)'', int_column [1]),
                  (''x'', int_column [2]),
                  (''y'', int_column [3])] \<rparr>"

definition no_y_csv :: string where
  "no_y_csv = ''elapsedTime(seconds),x'' @ [CHR 0x0A] @ ''0.5,100.5''"

definition no_y_frame :: dataframe where
  "no_y_frame =
     \<lparr> nrows = 1,
       columns = [(''elapsedTime(seconds)'', float_column [1 / 2]),
                  (''x'', float_column [201 / 2])] \<rparr>"

definition zero_delta_csv :: string where
  "zero_delta_csv =
     ''elapsedTime(seconds),x,y'' @ [CHR 0x0A] @ ''0.0,0.0,0.0'' @ [CHR 0x0A]
       @ ''0.0,3.0,4.0'' @ [CHR 0x0A] @ ''1.0,3.0,4.0''"

definition zero_delta_frame :: dataframe where
  "zero_delta_frame =
     \<lparr> nrows = 3,
       columns = [(''elapsedTime(seconds)'', float_column [0, 0, 1]),
                  (''x'', float_column [0, 3, 3]),
                  (''y'', float_column [0, 4, 4])] \<rparr>"

definition sample_read_csv :: "string \<Rightarrow> exn + dataframe" where
  "sample_read_csv s =
     (if s = single_row_csv then Inr single_row_frame
      else if s = int_row_csv then Inr int_row_frame
      else if s = no_y_csv then Inr no_y_frame
      else if s = zero_delta_csv then Inr zero_delta_frame
      else Inl (ParserError ''No columns to parse from file''))"


section \<open>Arithmetic of sums and of the standard deviation\<close>

text \<open>
  Addition is associative on \<open>fval\<close>, so the order in which numpy adds up a list does
  not change the sum.
\<close>

lemma fadd_assoc: "fadd (fadd x y) z = fadd x (fadd y z)"
  by (cases x; cases y; cases z) simp_all

lemma fadd_zero_right: "fadd x (Fin 0) = x"
  by (cases x) simp_all

lemma foldl_fadd: "foldl fadd a vs = fadd a (foldl fadd (Fin 0) vs)"
proof (induction vs arbitrary: a)
  case Nil
  show ?case by (simp add: fadd_zero_right)
next
  case (Cons v vs)
  have "foldl fadd a (v # vs) = fadd (fadd a v) (foldl fadd (Fin 0) vs)"
    using Cons.IH [of "fadd a v"] by simp
  also have "\<dots> = fadd a (fadd v (foldl fadd (Fin 0) vs))"
    by (rule fadd_assoc)
  also have "fadd v (foldl fadd (Fin 0) vs) = foldl fadd (fadd (Fin 0) v) vs"
    using Cons.IH [of "fadd (Fin 0) v"] by (cases v) simp_all
  finally show ?case by simp
qed

lemma np_sum_Nil: "np_sum [] = Fin 0"
  by (simp add: np_sum_def)

lemma np_sum_Cons: "np_sum (v # vs) = fadd v (np_sum vs)"
proof -
  have "np_sum (v # vs) = foldl fadd (fadd (Fin 0) v) vs"
    by (simp add: np_sum_def)
  also have "fadd (Fin 0) v = v"
    by (cases v) simp_all
  finally show ?thesis
    using foldl_fadd [of v vs] by (simp add: np_sum_def)
qed

lemma np_sum_NaN: "NaN \<in> set vs \<Longrightarrow> np_sum vs = NaN"
proof (induction vs)
  case Nil
  then show ?case by simp
next
  case (Cons v vs)
  show ?case
  proof (cases "v = NaN")
    case True
    then show ?thesis by (simp add: np_sum_Cons)
  next
    case False
    with Cons have "np_sum vs = NaN" by simp
    then show ?thesis by (cases v) (simp_all add: np_sum_Cons)
  qed
qed

lemma fsub_absorb_head: "\<not> is_fin v \<Longrightarrow> fsub v (fadd v s) = NaN"
  by (cases v; cases s) (simp_all add: fsub_def)

lemma fsub_absorb_tail: "\<not> is_fin v \<Longrightarrow> fsub v s = NaN \<Longrightarrow> fsub v (fadd a s) = NaN"
  by (cases v; cases s; cases a) (simp_all add: fsub_def)

lemma fsub_np_sum: "v \<in> set vs \<Longrightarrow> \<not> is_fin v \<Longrightarrow> fsub v (np_sum vs) = NaN"
proof (induction vs)
  case Nil
  then show ?case by simp
next
  case (Cons a vs)
  show ?case
  proof (cases "v = a")
    case True
    with Cons.prems show ?thesis by (simp add: np_sum_Cons fsub_absorb_head)
  next
    case False
    with Cons have "fsub v (np_sum vs) = NaN" by simp
    with Cons.prems show ?thesis by (simp add: np_sum_Cons fsub_absorb_tail)
  qed
qed

lemma fsub_fdiv_absorb: "\<not> is_fin v \<Longrightarrow> fsub v s = NaN \<Longrightarrow> 0 \<le> n \<Longrightarrow> fsub v (fdiv s (Fin n)) = NaN"
  by (cases v; cases s) (simp_all add: fsub_def)

lemma np_std_NaN:
  assumes "v \<in> set vs" and "\<not> is_fin v"
  shows "np_std vs = NaN"
proof -
  have "fsub v (np_mean vs) = NaN"
    unfolding np_mean_def using assms by (intro fsub_fdiv_absorb fsub_np_sum) simp_all
  then have "NaN \<in> set (map (\<lambda>d. fmul d d) (map (\<lambda>v. fsub v (np_mean vs)) vs))"
    using assms(1) by force
  then have "np_sum (map (\<lambda>d. fmul d d) (map (\<lambda>v. fsub v (np_mean vs)) vs)) = NaN"
    by (rule np_sum_NaN)
  then show ?thesis
    by (simp add: np_std_def np_mean_def Let_def)
qed

lemma not_negative_square: "not_negative (fmul d d)"
  by (cases d) simp_all

lemma not_negative_fadd: "not_negative x \<Longrightarrow> not_negative y \<Longrightarrow> not_negative (fadd x y)"
  by (cases x; cases y) simp_all

lemma not_negative_np_sum: "(\<And>v. v \<in> set vs \<Longrightarrow> not_negative v) \<Longrightarrow> not_negative (np_sum vs)"
  by (induction vs) (simp_all add: np_sum_Nil np_sum_Cons not_negative_fadd)

lemma not_negative_fdiv: "not_negative s \<Longrightarrow> 0 \<le> n \<Longrightarrow> not_negative (fdiv s (Fin n))"
  by (cases s) simp_all

lemma not_negative_fsqrt: "not_negative s \<Longrightarrow> not_negative (fsqrt s)"
  by (cases s) simp_all

lemma not_negative_np_std: "not_negative (np_std vs)"
proof -
  have "not_negative (np_sum (map (\<lambda>d. fmul d d) (map (\<lambda>v. fsub v (np_mean vs)) vs)))"
    by (rule not_negative_np_sum) (auto simp: not_negative_square)
  then show ?thesis
    by (simp add: np_std_def np_mean_def Let_def not_negative_fdiv not_negative_fsqrt)
qed

lemma stability_formula_range:
  assumes "not_negative s"
  shows "fsub (Fin 100) (py_min (fmul s (Fin 10)) (Fin 100)) = NaN
       \<or> (\<exists>r. fsub (Fin 100) (py_min (fmul s (Fin 10)) (Fin 100)) = Fin r \<and> 0 \<le> r \<and> r \<le> 100)"
  using assms by (cases s) (auto simp: py_min_def fsub_def)

lemma compute_stability_range:
  "compute_stability distances ts = NaN
     \<or> (\<exists>r. compute_stability distances ts = Fin r \<and> 0 \<le> r \<and> r \<le> 100)"
  by (simp add: compute_stability_def Let_def stability_formula_range not_negative_np_std)

section \<open>The stages of the pipeline\<close>

lemma clamp_range:
  "\<exists>r. py_max (Fin 1) (py_min (Fin 100) t) = Fin r \<and> 1 \<le> r \<and> r \<le> 100"
  by (cases t) (simp_all add: py_min_def py_max_def)

lemma attention_score_range:
  "\<exists>r. calculate_attention_score d a s c p = Fin r \<and> 1 \<le> r \<and> r \<le> 100"
  unfolding calculate_attention_score_def by (rule clamp_range)

lemma py_int_range:
  assumes "1 \<le> r" and "r \<le> 100"
  shows "py_int (Fin r) = Inr \<lfloor>r\<rfloor> \<and> 1 \<le> \<lfloor>r\<rfloor> \<and> \<lfloor>r\<rfloor> \<le> 100"
proof -
  have "1 \<le> \<lfloor>r\<rfloor>" using assms(1) by (simp add: le_floor_iff)
  moreover have "\<lfloor>r\<rfloor> \<le> 100" using assms(2) by (simp add: floor_le_iff)
  ultimately show ?thesis using assms(1) by simp
qed

lemma label_of_floor:
  assumes "1 \<le> r"
  shows "get_score_description (Fin (of_int \<lfloor>r\<rfloor>)) = get_score_description (Fin r)"
  by (simp add: get_score_description_def le_floor_iff)







lemma item_diff_ok:
  assumes "df_getitem df c = Inr col" and "\<not> is_text col"
  shows "\<exists>d. item_diff df i c = Inr d"
  using assms by (cases col) (simp_all add: item_diff_def)

lemma distances_loop_ok:
  assumes "df_getitem df ''x'' = Inr xcol" and "\<not> is_text xcol"
    and "df_getitem df ''y'' = Inr ycol" and "\<not> is_text ycol"
  shows "\<exists>ds. distances_loop df is = Inr ds \<and> length ds = length is"
proof (induction "is")
  case Nil
  show ?case by simp
next
  case (Cons i "is")
  obtain dx where dx: "item_diff df i ''x'' = Inr dx"
    using item_diff_ok [OF assms(1,2)] by blast
  obtain dy where dy: "item_diff df i ''y'' = Inr dy"
    using item_diff_ok [OF assms(3,4)] by blast
  from Cons dx dy show ?case by auto
qed

lemma series_range_ok:
  assumes "n = 0 \<or> \<not> is_text col"
  shows "\<exists>d. series_range n col = Inr d"
  using assms by (cases col) auto

lemma length_column_floats: "\<not> is_text col \<Longrightarrow> length (column_floats n col) = n"
  by (cases col) simp_all

text \<open>A text column passes line 17 only when the table has no rows.\<close>

lemma text_column_range: "series_range n (Object f) = Inr d \<Longrightarrow> n = 0"
  by (simp split: if_splits)

lemma is_np_float_num_mul: "is_np_float (num_mul a b) = (is_np_float a \<or> is_np_float b)"
  by (cases a; cases b) simp_all

lemma series_range_float64:
  "is_float64 col \<Longrightarrow> series_range n col = Inr d \<Longrightarrow> is_np_float d"
  by (cases col) auto

lemma serializable_round2: "serializable (round2_json d) = is_np_float d"
  by (cases d) simp_all

lemma serializable_result_dict:
  "serializable (result_dict st a n) = (is_np_float (duration st) \<and> is_np_float (coverage_area st))"
  by (simp add: result_dict_def serializable_round2)


lemma strict_json_error_result: "strict_json (error_result e)"
  by (simp add: error_result_def)

lemma build_result_Inr:
  assumes "build_result read_csv csv_data = Inr result"
  shows "\<exists>df st r. read_csv csv_data = Inr df \<and> statistics df = Inr st
           \<and> calculate_attention_score (to_float (duration st)) (avg_distance st)
                (stability st) (to_float (coverage_area st)) (total_points st) = Fin r
           \<and> 1 \<le> r \<and> r \<le> 100 \<and> result = result_dict st (Fin r) \<lfloor>r\<rfloor>"
proof -
  from assms obtain df where df: "read_csv csv_data = Inr df"
    by (auto simp: build_result_def split: sum.splits)
  from assms df obtain st where st: "statistics df = Inr st"
    by (auto simp: build_result_def split: sum.splits)
  obtain r where r: "calculate_attention_score (to_float (duration st)) (avg_distance st)
      (stability st) (to_float (coverage_area st)) (total_points st) = Fin r" "1 \<le> r" "r \<le> 100"
    using attention_score_range by blast
  from assms df st r py_int_range [OF r(2,3)] have "result = result_dict st (Fin r) \<lfloor>r\<rfloor>"
    by (simp add: build_result_def)
  with df st r show ?thesis by blast
qed

lemma build_result_of_statistics:
  assumes "read_csv csv_data = Inr df" and "statistics df = Inr st"
    and "calculate_attention_score (to_float (duration st)) (avg_distance st)
           (stability st) (to_float (coverage_area st)) (total_points st) = Fin r"
    and "1 \<le> r" and "r \<le> 100"
  shows "build_result read_csv csv_data = Inr (result_dict st (Fin r) \<lfloor>r\<rfloor>)"
  using assms py_int_range [OF assms(4,5)] by (simp add: build_result_def)


text \<open>
  The three ways through \<^verbatim>\<open>analyze_gaze_data\<close>: the result is built and serialised;
  building it raises; serialising it raises.
\<close>

lemma response_cases:
  "(\<exists>st r. 1 \<le> r \<and> r \<le> 100
       \<and> build_result read_csv csv_data = Inr (result_dict st (Fin r) \<lfloor>r\<rfloor>)
       \<and> serializable (result_dict st (Fin r) \<lfloor>r\<rfloor>)
       \<and> response read_csv csv_data = result_dict st (Fin r) \<lfloor>r\<rfloor>)
   \<or> (\<exists>e. build_result read_csv csv_data = Inl e
         \<and> response read_csv csv_data = error_result e)
   \<or> (\<exists>result. build_result read_csv csv_data = Inr result \<and> \<not> serializable result
         \<and> response read_csv csv_data =
             error_result (TypeError ''Object of type int64 is not JSON serializable''))"
proof (cases "build_result read_csv csv_data")
  case (Inl e)
  then show ?thesis by (simp add: response_def)
next
  case (Inr result)
  then obtain st r where "1 \<le> r" "r \<le> 100" "result = result_dict st (Fin r) \<lfloor>r\<rfloor>"
    using build_result_Inr by blast
  with Inr show ?thesis by (cases "serializable result") (auto simp: response_def)
qed



lemma fadd_NaN_right: "fadd x NaN = NaN"
  by (cases x) simp_all

lemma fdiv_zero_not_finite: "\<not> is_fin (fdiv d (Fin 0))"
  by (cases d) simp_all

lemma length_np_diff: "length (np_diff ts) = length ts - 1"
  by (induction ts rule: np_diff.induct) simp_all

lemma nth_np_diff: "Suc i < length ts \<Longrightarrow> np_diff ts ! i = fsub (ts ! Suc i) (ts ! i)"
proof (induction ts arbitrary: i rule: np_diff.induct)
  case (1 a b vs)
  then show ?case by (cases i) simp_all
qed simp_all

lemma total_score_NaN: "total_score d a NaN p = NaN"
  by (simp add: total_score_def stability_score_def py_min_def fadd_NaN_right)

lemma attention_score_NaN: "calculate_attention_score d a NaN c p = Fin 100"
  by (simp add: calculate_attention_score_def total_score_NaN py_min_def py_max_def)

lemma zero_delta_stability:
  assumes "length ds = length ts - 1" and "3 \<le> length ts" and "Suc i < length ts"
    and "fsub (ts ! Suc i) (ts ! i) = Fin 0"
  shows "compute_stability ds ts = NaN"
proof -
  let ?speeds = "map2 fdiv ds (np_diff ts)"
  have len: "i < length ?speeds"
    using assms(1,3) by (simp add: length_np_diff)
  then have "?speeds ! i = fdiv (ds ! i) (np_diff ts ! i)"
    by simp
  with assms(3,4) have "?speeds ! i = fdiv (ds ! i) (Fin 0)"
    by (simp add: nth_np_diff)
  then have "\<not> is_fin (?speeds ! i)"
    by (simp add: fdiv_zero_not_finite)
  moreover have "?speeds ! i \<in> set ?speeds"
    using len by (rule nth_mem)
  ultimately have "np_std ?speeds = NaN"
    by (rule np_std_NaN [rotated])
  with assms(1,2) show ?thesis
    by (simp add: compute_stability_def Let_def py_min_def fsub_def)
qed










section \<open>The example inputs, evaluated\<close>

lemmas csv_defs = single_row_csv_def int_row_csv_def no_y_csv_def zero_delta_csv_def

lemma sqrt_25: "sqrt 25 = 5"
  by (rule real_sqrt_unique) simp_all

lemma read_single_row: "sample_read_csv single_row_csv = Inr single_row_frame"
  by (simp add: sample_read_csv_def)



lemma read_zero_delta: "sample_read_csv zero_delta_csv = Inr zero_delta_frame"
  by (simp add: sample_read_csv_def csv_defs)


lemma upt_3: "[0..<3] = [0, Suc 0, 2]"
  by (simp add: upt_rec)

lemma upt_1_3: "[Suc 0..<3] = [Suc 0, 2]"
  by (simp add: upt_rec)

lemma single_row_statistics:
  "statistics single_row_frame =
     Inr \<lparr> total_points = 1, duration = NpFloat (Fin 0), avg_distance = Fin 0,
           total_distance = Fin 0, coverage_area = NpFloat (Fin 0), stability = Fin 50 \<rparr>"
  by (simp add: statistics_def df_getitem_def single_row_frame_def float_column_def
        series_max_def series_min_def fsub_def compute_stability_def)

lemma single_row_score:
  "calculate_attention_score (Fin 0) (Fin 0) (Fin 50) (Fin 0) (Suc 0) = Fin (689 / 10)"
  by (simp add: calculate_attention_score_def total_score_def duration_score_def
        stability_score_def quality_score_def movement_score_def py_min_def py_max_def
        fsub_def)

lemma floor_689: "\<lfloor>689 / 10 :: real\<rfloor> = 68"
  by (simp add: floor_eq_iff)

lemma single_row_response:
  "response sample_read_csv single_row_csv =
     JObject
       [(''score'', JInt 68),
        (''analysis'', JObject
           [(''total_points'', JInt 1),
            (''duration_seconds'', JFloat (Fin 0)),
            (''average_movement'', JFloat (Fin 0)),
            (''total_movement'', JFloat (Fin 0)),
            (''stability_score'', JFloat (Fin 50)),
            (''coverage_area'', JFloat (Fin 0))]),
        (''message'', JString ''Analysis completed: Moderate attention focus'')]"
  by (simp add: response_def build_result_def read_single_row single_row_statistics
        single_row_score floor_689 result_dict_def get_score_description_def
        round_half_even_def)




lemma zero_delta_statistics:
  "statistics zero_delta_frame =
     Inr \<lparr> total_points = 3, duration = NpFloat (Fin 1), avg_distance = Fin (5 / 2),
           total_distance = Fin 5, coverage_area = NpFloat (Fin 12), stability = NaN \<rparr>"
proof -
  have "distances_loop zero_delta_frame [1..<nrows zero_delta_frame] = Inr [Fin 5, Fin 0]"
    by (simp add: zero_delta_frame_def float_column_def item_diff_def df_getitem_def
          fsub_def sqrt_25 upt_1_3)
  moreover have "np_std [PInf, Fin 0] = NaN"
    by (simp add: np_std_def np_mean_def np_sum_def fsub_def)
  ultimately show ?thesis
    by (simp add: statistics_def df_getitem_def series_max_def series_min_def fsub_def
          compute_stability_def zero_delta_frame_def float_column_def np_mean_def
          np_sum_def py_min_def upt_3)
qed

lemma zero_delta_response:
  "response sample_read_csv zero_delta_csv =
     JObject
       [(''score'', JInt 100),
        (''analysis'', JObject
           [(''total_points'', JInt 3),
            (''duration_seconds'', JFloat (Fin 1)),
            (''average_movement'', JFloat (Fin (5 / 2))),
            (''total_movement'', JFloat (Fin 5)),
            (''stability_score'', JFloat NaN),
            (''coverage_area'', JFloat (Fin 12))]),
        (''message'', JString ''Analysis completed: Excellent attention patterns'')]"
  by (simp add: response_def build_result_def read_zero_delta zero_delta_statistics
        attention_score_NaN result_dict_def get_score_description_def round_half_even_def)

section \<open>The claims of the specification\<close>

text \<open>
  Claim C1. The score calculator returns a finite value between 1 and 100, whatever its
  arguments (NaN and the infinities included), and \<^verbatim>\<open>int\<close> truncates it to an integer
  between 1 and 100. So for every parser and every input text the response is either
  the success dictionary, with an integer score from 1 to 100, or the failure
  dictionary, with score 0.
\<close>

theorem score_in_range:
  "(\<exists>r. calculate_attention_score d a s c p = Fin r \<and> 1 \<le> r \<and> r \<le> 100
        \<and> py_int (Fin r) = Inr \<lfloor>r\<rfloor> \<and> 1 \<le> \<lfloor>r\<rfloor> \<and> \<lfloor>r\<rfloor> \<le> 100)
   \<and> ((\<exists>n analysis message.
          response read_csv csv_data =
            JObject [(''score'', JInt n), (''analysis'', analysis), (''message'', message)]
          \<and> 1 \<le> n \<and> n \<le> 100)
        \<or> (\<exists>description.
          response read_csv csv_data =
            JObject [(''score'', JInt 0), (''error'', JString description),
                     (''message'', JString ''Analysis failed'')]))"
proof
  obtain r where r: "calculate_attention_score d a s c p = Fin r" "1 \<le> r" "r \<le> 100"
    using attention_score_range by blast
  with py_int_range [OF r(2,3)]
  show "\<exists>r. calculate_attention_score d a s c p = Fin r \<and> 1 \<le> r \<and> r \<le> 100
        \<and> py_int (Fin r) = Inr \<lfloor>r\<rfloor> \<and> 1 \<le> \<lfloor>r\<rfloor> \<and> \<lfloor>r\<rfloor> \<le> 100"
    by blast
next
  from response_cases [of read_csv csv_data]
  consider st r where "1 \<le> r" "r \<le> 100"
      "response read_csv csv_data = result_dict st (Fin r) \<lfloor>r\<rfloor>"
    | e where "response read_csv csv_data = error_result e"
    by blast
  then show "(\<exists>n analysis message.
          response read_csv csv_data =
            JObject [(''score'', JInt n), (''analysis'', analysis), (''message'', message)]
          \<and> 1 \<le> n \<and> n \<le> 100)
        \<or> (\<exists>description.
          response read_csv csv_data =
            JObject [(''score'', JInt 0), (''error'', JString description),
                     (''message'', JString ''Analysis failed'')])"
  proof cases
    case 1
    moreover have "1 \<le> \<lfloor>r\<rfloor>" and "\<lfloor>r\<rfloor> \<le> 100"
      using py_int_range [OF 1(1,2)] by simp_all
    ultimately show ?thesis
      by (simp add: result_dict_def)
  next
    case 2
    then show ?thesis
      by (simp add: error_result_def)
  qed
qed




text \<open>
  Claim C3, as the code has it. A table with at least three rows and numeric columns,
  in which two consecutive rows have the same elapsed time, raises nothing while the
  statistics are derived and the score is computed: the speed of that step is a
  distance over zero, an infinity or NaN, the standard deviation of the speeds is NaN,
  the stability is NaN, the total score is NaN, and the clamp turns it into 100. When
  the elapsed-time column and one of the two coordinate columns are float64, the
  response is the success dictionary with score 100 and the label for an excellent
  score.
\<close>

theorem zero_delta_gives_success:
  assumes "read_csv csv_data = Inr df"
    and "df_getitem df ''elapsedTime(seconds)'' = Inr tcol" and "\<not> is_text tcol"
    and "df_getitem df ''x'' = Inr xcol" and "\<not> is_text xcol"
    and "df_getitem df ''y'' = Inr ycol" and "\<not> is_text ycol"
    and "3 \<le> nrows df" and "Suc i < nrows df"
    and "fsub (column_floats (nrows df) tcol ! Suc i) (column_floats (nrows df) tcol ! i) = Fin 0"
  shows "\<exists>st. statistics df = Inr st \<and> stability st = NaN
           \<and> calculate_attention_score (to_float (duration st)) (avg_distance st)
                (stability st) (to_float (coverage_area st)) (total_points st) = Fin 100
           \<and> build_result read_csv csv_data = Inr (result_dict st (Fin 100) 100)
           \<and> (is_float64 tcol \<and> (is_float64 xcol \<or> is_float64 ycol) \<longrightarrow>
                (\<exists>analysis. response read_csv csv_data =
                   JObject [(''score'', JInt 100), (''analysis'', analysis),
                            (''message'',
                             JString ''Analysis completed: Excellent attention patterns'')]))"
proof -
  obtain ds where ds: "distances_loop df [1..<nrows df] = Inr ds"
    and len: "length ds = length [1..<nrows df]"
    using distances_loop_ok [OF assms(4,5,6,7)] by blast
  obtain elapsed where elapsed: "series_range (nrows df) tcol = Inr elapsed"
    using series_range_ok assms(3) by blast
  obtain x_range where x_range: "series_range (nrows df) xcol = Inr x_range"
    using series_range_ok assms(5) by blast
  obtain y_range where y_range: "series_range (nrows df) ycol = Inr y_range"
    using series_range_ok assms(7) by blast
  let ?ts = "column_floats (nrows df) tcol"
  have lts: "length ?ts = nrows df"
    using assms(3) by (rule length_column_floats)
  have nan: "compute_stability ds ?ts = NaN"
    using len lts assms(8,9,10) by (intro zero_delta_stability [where i = i]) simp_all
  define st where "st = \<lparr> total_points = nrows df, duration = elapsed,
      avg_distance = (if ds \<noteq> [] then np_mean ds else Fin 0),
      total_distance = (if ds \<noteq> [] then np_sum ds else Fin 0),
      coverage_area = num_mul x_range y_range,
      stability = compute_stability ds ?ts \<rparr>"
  have st: "statistics df = Inr st"
    using assms(2,4,6) ds elapsed x_range y_range by (simp add: statistics_def st_def)
  have stab: "stability st = NaN"
    using nan by (simp add: st_def)
  have score: "calculate_attention_score (to_float (duration st)) (avg_distance st)
      (stability st) (to_float (coverage_area st)) (total_points st) = Fin 100"
    by (simp add: stab attention_score_NaN)
  have built: "build_result read_csv csv_data = Inr (result_dict st (Fin 100) 100)"
    using build_result_of_statistics [where read_csv = read_csv and csv_data = csv_data,
        OF assms(1) st score] by simp
  have "\<exists>analysis. response read_csv csv_data =
      JObject [(''score'', JInt 100), (''analysis'', analysis),
               (''message'', JString ''Analysis completed: Excellent attention patterns'')]"
    if "is_float64 tcol" and "is_float64 xcol \<or> is_float64 ycol"
  proof -
    have "is_np_float elapsed"
      using that(1) elapsed by (rule series_range_float64)
    moreover have "is_np_float x_range \<or> is_np_float y_range"
      using that(2) x_range y_range series_range_float64 by blast
    ultimately have "serializable (result_dict st (Fin 100) 100)"
      by (simp add: serializable_result_dict st_def is_np_float_num_mul)
    with built have "response read_csv csv_data = result_dict st (Fin 100) 100"
      by (simp add: response_def)
    then show ?thesis
      by (simp add: result_dict_def get_score_description_def)
  qed
  with st stab score built show ?thesis by blast
qed

theorem zero_delta_gives_success_witness:
  "sample_read_csv zero_delta_csv = Inr zero_delta_frame
   \<and> 3 \<le> nrows zero_delta_frame
   \<and> fsub (column_floats (nrows zero_delta_frame) (float_column [0, 0, 1]) ! Suc 0)
           (column_floats (nrows zero_delta_frame) (float_column [0, 0, 1]) ! 0) = Fin 0
   \<and> (\<exists>st analysis. statistics zero_delta_frame = Inr st \<and> stability st = NaN
         \<and> response sample_read_csv zero_delta_csv =
             JObject [(''score'', JInt 100), (''analysis'', analysis),
                      (''message'', JString ''Analysis completed: Excellent attention patterns'')])"
proof -
  have cols: "df_getitem zero_delta_frame ''elapsedTime(seconds)'' = Inr (float_column [0, 0, 1])"
    "\<not> is_text (float_column [0, 0, 1])"
    "df_getitem zero_delta_frame ''x'' = Inr (float_column [0, 3, 3])"
    "\<not> is_text (float_column [0, 3, 3])"
    "df_getitem zero_delta_frame ''y'' = Inr (float_column [0, 4, 4])"
    "\<not> is_text (float_column [0, 4, 4])"
    by (simp_all add: zero_delta_frame_def df_getitem_def float_column_def)
  have len: "3 \<le> nrows zero_delta_frame" "Suc 0 < nrows zero_delta_frame"
    by (simp_all add: zero_delta_frame_def)
  have delta: "fsub (column_floats (nrows zero_delta_frame) (float_column [0, 0, 1]) ! Suc 0)
           (column_floats (nrows zero_delta_frame) (float_column [0, 0, 1]) ! 0) = Fin 0"
    by (simp add: zero_delta_frame_def float_column_def fsub_def upt_3)
  have floats: "is_float64 (float_column [0, 0, 1])
      \<and> (is_float64 (float_column [0, 3, 3]) \<or> is_float64 (float_column [0, 4, 4]))"
    by (simp add: float_column_def)
  from zero_delta_gives_success [where read_csv = sample_read_csv and csv_data = zero_delta_csv,
      OF read_zero_delta cols len delta] floats read_zero_delta len(1) delta
  show ?thesis by blast
qed

text \<open>
  The specification expects a numeric error and the failure dictionary here. On the
  three samples \<open>(0, 0, 0), (0, 3, 4), (1, 3, 4)\<close>, written with decimal points, the
  distances are 5 and 0, the time differences 0 and 1, the speeds an infinity and 0; the
  statistics are derived without an exception and the response is the success
  dictionary.
\<close>

theorem zero_delta_counterexample:
  "sample_read_csv zero_delta_csv = Inr zero_delta_frame
   \<and> statistics zero_delta_frame =
       Inr \<lparr> total_points = 3, duration = NpFloat (Fin 1), avg_distance = Fin (5 / 2),
             total_distance = Fin 5, coverage_area = NpFloat (Fin 12), stability = NaN \<rparr>
   \<and> response sample_read_csv zero_delta_csv =
       JObject
         [(''score'', JInt 100),
          (''analysis'', JObject
             [(''total_points'', JInt 3),
              (''duration_seconds'', JFloat (Fin 1)),
              (''average_movement'', JFloat (Fin (5 / 2))),
              (''total_movement'', JFloat (Fin 5)),
              (''stability_score'', JFloat NaN),
              (''coverage_area'', JFloat (Fin 12))]),
          (''message'', JString ''Analysis completed: Excellent attention patterns'')]"
  using read_zero_delta zero_delta_statistics zero_delta_response by simp

text \<open>
  Claim C4, as the code has it. The stability is 100 minus a value that is capped at
  100 and that is not negative, a standard deviation times 10: it is NaN or lies
  between 0 and 100. It never exceeds 100, and it is never negative.
\<close>

theorem stability_between_0_and_100:
  "(compute_stability distances ts = NaN
      \<or> (\<exists>r. compute_stability distances ts = Fin r \<and> 0 \<le> r \<and> r \<le> 100))
   \<and> \<not> flt (Fin 100) (compute_stability distances ts)
   \<and> \<not> flt (compute_stability distances ts) (Fin 0)"
  using compute_stability_range [of distances ts] by auto

text \<open>
  The specification says that the stability never exceeds 100 and that some input makes
  it negative. No input does.
\<close>

theorem stability_negative_counterexample:
  "\<not> ((\<forall>distances ts. \<not> flt (Fin 100) (compute_stability distances ts))
      \<and> (\<exists>distances ts. 1 < length distances \<and> flt (compute_stability distances ts) (Fin 0)))"
proof -
  have "\<not> flt (compute_stability distances ts) (Fin 0)" for distances ts
    using compute_stability_range [of distances ts] by auto
  then show ?thesis by blast
qed

text \<open>
  Claim C5. At the boundaries of the score calculator: a duration of exactly 10 and of
  exactly 30 both give the duration score 25; an average movement of exactly 50 and of
  exactly 200 both give the movement score 10; 100 points give the quality score 15 and
  0 points give the quality score 0.
\<close>

theorem score_boundaries:
  "duration_score (Fin 10) = Fin 25 \<and> duration_score (Fin 30) = Fin 25
   \<and> movement_score (Fin 50) = Fin 10 \<and> movement_score (Fin 200) = Fin 10
   \<and> quality_score 100 = Fin 15 \<and> quality_score 0 = Fin 0"
  by (simp add: duration_score_def movement_score_def quality_score_def py_min_def)

text \<open>
  Claim C6. For a table with fewer than two rows, the statistics, whenever they are
  derived, have average distance 0, total distance 0 and stability 50; and they are
  derived as soon as the three columns are present and, when there is a row, none of
  them is text.
\<close>

theorem few_rows_statistics:
  assumes "nrows df < 2"
  shows "(\<forall>st. statistics df = Inr st \<longrightarrow>
            avg_distance st = Fin 0 \<and> total_distance st = Fin 0 \<and> stability st = Fin 50)
       \<and> ((\<exists>tcol xcol ycol.
              df_getitem df ''elapsedTime(seconds)'' = Inr tcol
              \<and> df_getitem df ''x'' = Inr xcol \<and> df_getitem df ''y'' = Inr ycol
              \<and> (nrows df = 0 \<or> (\<not> is_text tcol \<and> \<not> is_text xcol \<and> \<not> is_text ycol)))
            \<longrightarrow> (\<exists>st. statistics df = Inr st))"
proof -
  have loop: "distances_loop df [1..<nrows df] = Inr []"
    using assms by simp
  have stats_values: "avg_distance st = Fin 0 \<and> total_distance st = Fin 0 \<and> stability st = Fin 50"
    if "statistics df = Inr st" for st
    using that loop
    by (auto simp: statistics_def compute_stability_def split: sum.splits)
  have derived: "\<exists>st. statistics df = Inr st"
    if cols: "df_getitem df ''elapsedTime(seconds)'' = Inr tcol"
        "df_getitem df ''x'' = Inr xcol" "df_getitem df ''y'' = Inr ycol"
      and kinds: "nrows df = 0 \<or> (\<not> is_text tcol \<and> \<not> is_text xcol \<and> \<not> is_text ycol)"
    for tcol xcol ycol
  proof -
    obtain elapsed where "series_range (nrows df) tcol = Inr elapsed"
      using series_range_ok [of "nrows df" tcol] kinds by blast
    moreover obtain x_range where "series_range (nrows df) xcol = Inr x_range"
      using series_range_ok [of "nrows df" xcol] kinds by blast
    moreover obtain y_range where "series_range (nrows df) ycol = Inr y_range"
      using series_range_ok [of "nrows df" ycol] kinds by blast
    ultimately show ?thesis
      using cols loop by (simp add: statistics_def)
  qed
  from stats_values derived show ?thesis by blast
qed

theorem few_rows_statistics_witness:
  "nrows single_row_frame < 2
   \<and> (\<exists>st. statistics single_row_frame = Inr st
         \<and> avg_distance st = Fin 0 \<and> total_distance st = Fin 0 \<and> stability st = Fin 50)"
proof -
  have len: "nrows single_row_frame < 2"
    by (simp add: single_row_frame_def)
  have cols: "\<exists>tcol xcol ycol.
      df_getitem single_row_frame ''elapsedTime(seconds)'' = Inr tcol
      \<and> df_getitem single_row_frame ''x'' = Inr xcol
      \<and> df_getitem single_row_frame ''y'' = Inr ycol
      \<and> (nrows single_row_frame = 0
           \<or> (\<not> is_text tcol \<and> \<not> is_text xcol \<and> \<not> is_text ycol))"
    by (simp add: single_row_frame_def df_getitem_def float_column_def)
  from few_rows_statistics [OF len] cols len show ?thesis by blast
qed

text \<open>
  Claim C7. The label depends on the score only, and for every integer score (so for
  every score from 1 to 100) exactly one row of the specification's table contains the
  score, and the label of that row is the label the function returns. The five labels
  are different from each other.
\<close>

theorem label_partition:
  "map snd (filter (\<lambda>(in_range, label). in_range n) label_table_spec)
     = [get_score_description (Fin (of_int n))]
   \<and> distinct (map snd label_table_spec)"
proof -
  consider "85 \<le> n" | "70 \<le> n \<and> n \<le> 84" | "55 \<le> n \<and> n \<le> 69" | "40 \<le> n \<and> n \<le> 54" | "n < 40"
    by linarith
  then have "map snd (filter (\<lambda>(in_range, label). in_range n) label_table_spec)
     = [get_score_description (Fin (of_int n))]"
    by cases (simp_all add: label_table_spec_def get_score_description_def)
  moreover have "distinct (map snd label_table_spec)"
    by (simp add: label_table_spec_def)
  ultimately show ?thesis by simp
qed

text \<open>
  Claim C8. In every success dictionary the message is \<open>Analysis completed: \<close> followed
  by the label of the integer under \<open>score\<close>: the source computes the label on the
  clamped float, and the thresholds are integers, so truncating toward zero does not
  change the label.
\<close>

theorem message_label_matches_score:
  assumes "response read_csv csv_data =
             JObject [(''score'', JInt n), (''analysis'', analysis),
                      (''message'', JString message)]"
  shows "message = ''Analysis completed: '' @ get_score_description (Fin (of_int n))"
proof -
  from response_cases [of read_csv csv_data]
  consider st r where "1 \<le> r" "response read_csv csv_data = result_dict st (Fin r) \<lfloor>r\<rfloor>"
    | e where "response read_csv csv_data = error_result e"
    by blast
  then show ?thesis
  proof cases
    case 1
    with assms have "n = \<lfloor>r\<rfloor>"
      and "message = ''Analysis completed: '' @ get_score_description (Fin r)"
      by (simp_all add: result_dict_def)
    with label_of_floor [OF 1(1)] show ?thesis by simp
  next
    case 2
    with assms show ?thesis by (simp add: error_result_def)
  qed
qed

theorem message_label_matches_score_witness:
  "response sample_read_csv single_row_csv =
     JObject
       [(''score'', JInt 68),
        (''analysis'', JObject
           [(''total_points'', JInt 1),
            (''duration_seconds'', JFloat (Fin 0)),
            (''average_movement'', JFloat (Fin 0)),
            (''total_movement'', JFloat (Fin 0)),
            (''stability_score'', JFloat (Fin 50)),
            (''coverage_area'', JFloat (Fin 0))]),
        (''message'', JString ''Analysis completed: Moderate attention focus'')]
   \<and> ''Analysis completed: Moderate attention focus''
       = ''Analysis completed: '' @ get_score_description (Fin (of_int 68))"
  using single_row_response message_label_matches_score [OF single_row_response] by simp




end
